theory Spec2Isabelle
  imports Complex_Main
begin

section \<open>The data collection agent of \<^verbatim>\<open>agent/data_collection_agent.py\<close>\<close>

text \<open>
  The class \<^verbatim>\<open>DataCollectionAgent\<close> is embedded as pure functions over an explicit agent
  state. Python's unbounded integers are \<^typ>\<open>int\<close>. Python's floats are idealised as
  \<^typ>\<open>real\<close>: \<^verbatim>\<open>*= 0.8\<close> multiplies by exactly 4/5 and \<^verbatim>\<open>/\<close> is the exact quotient, so
  rounding, overflow to infinity and underflow are outside the model. Exceptions are values
  of the type \<open>error\<close>; whatever the program reads from the outside (the HTTP exchange, the
  clock, the random jitter, the file system) is an input of the function that reads it.
\<close>

subsection \<open>Values, records and configuration\<close>

text \<open>What \<^verbatim>\<open>json.load\<close> and \<^verbatim>\<open>response.json()\<close> produce. A dict is an association
  list read with \<^const>\<open>map_of\<close>.\<close>

datatype json =
    JNull
  | JBool bool
  | JInt int
  | JNum real
  | JStr string
  | JList "json list"
  | JDict "(string \<times> json) list"

type_synonym pydict = "(string \<times> json) list"

text \<open>Python's truth value of a JSON value: \<^verbatim>\<open>None\<close>, \<^verbatim>\<open>False\<close>, zero and every empty
  container are falsy.\<close>

fun truthy :: "json \<Rightarrow> bool" where
  "truthy JNull = False"
| "truthy (JBool b) = b"
| "truthy (JInt i) = (i \<noteq> 0)"
| "truthy (JNum r) = (r \<noteq> 0)"
| "truthy (JStr s) = (s \<noteq> [])"
| "truthy (JList xs) = (xs \<noteq> [])"
| "truthy (JDict d) = (d \<noteq> [])"

text \<open>\<^verbatim>\<open>d.get(key, default)\<close>.\<close>

definition dict_get :: "pydict \<Rightarrow> string \<Rightarrow> json \<Rightarrow> json" where
  "dict_get d k dflt = (case map_of d k of None \<Rightarrow> dflt | Some v \<Rightarrow> v)"

datatype error =
    KeyError string
  | AttributeError
  | TypeError
  | ValueError
  | OSError

text \<open>The configuration after \<^verbatim>\<open>load_config\<close> has merged the defaults: the keys of
  \<^verbatim>\<open>agent_settings\<close> always exist, the others exist only if the file has them. The
  top-level key \<^verbatim>\<open>base_delay\<close> is never given a default.\<close>

record agent_settings =
  base_delay :: real
  max_requests :: int
  timeout :: real
  retry_attempts :: int

record api_settings =
  primary_api :: "string option"
  fallback_apis :: "string list option"

record data_quality =
  required_fields :: "string list option"
  max_age_hours :: "real option"

record config =
  top_level_base_delay :: "real option"
  agent_settings :: agent_settings
  api_settings :: api_settings
  data_quality :: data_quality

text \<open>The fields of the agent object that the controller reads and writes. \<open>slept\<close> is the
  trace of the durations passed to \<^verbatim>\<open>time.sleep\<close>, oldest first.\<close>

record agent =
  data_store :: "pydict list"
  total_requests :: int
  successful_requests :: int
  failed_requests :: int
  delay_multiplier :: real
  current_api :: string
  slept :: "real list"

text \<open>\<^verbatim>\<open>__init__\<close>, after the configuration is loaded.\<close>

definition init :: "config \<Rightarrow> agent" where
  "init cfg =
     \<lparr> data_store = [],
       total_requests = 0,
       successful_requests = 0,
       failed_requests = 0,
       delay_multiplier = 1,
       current_api = (case primary_api (api_settings cfg) of None \<Rightarrow> ''default'' | Some a \<Rightarrow> a),
       slept = [] \<rparr>"

subsection \<open>Success rate and strategy\<close>

definition collection_complete :: "config \<Rightarrow> agent \<Rightarrow> bool" where
  "collection_complete cfg s = (total_requests s \<ge> max_requests (agent_settings cfg))"

definition get_success_rate :: "agent \<Rightarrow> real" where
  "get_success_rate s =
     (let total = total_requests s
      in if total = 0 then 1
         else real_of_int (successful_requests s) / real_of_int total)"

definition try_fallback_api :: "config \<Rightarrow> agent \<Rightarrow> agent" where
  "try_fallback_api cfg s =
     (let fallback = (case fallback_apis (api_settings cfg) of None \<Rightarrow> [] | Some f \<Rightarrow> f)
      in case fallback of
           [] \<Rightarrow> s
         | f # _ \<Rightarrow> if current_api s \<noteq> f then s\<lparr>current_api := f\<rparr> else s)"

text \<open>\<^verbatim>\<open>log_strategy_change\<close> only writes a log line and is left out.\<close>

definition adjust_strategy :: "config \<Rightarrow> agent \<Rightarrow> agent" where
  "adjust_strategy cfg s =
     (let success_rate = get_success_rate s
      in if success_rate < 0.5 then
           try_fallback_api cfg (s\<lparr>delay_multiplier := delay_multiplier s * 2\<rparr>)
         else if success_rate > 0.9 then
           s\<lparr>delay_multiplier := delay_multiplier s * 0.8\<rparr>
         else s)"

text \<open>\<^verbatim>\<open>respectful_delay\<close>: \<^verbatim>\<open>self.config.get('base_delay', 1.0)\<close> reads the top level of the
  configuration. \<open>jitter\<close> is the value of \<^verbatim>\<open>random.uniform(0.5, 1.5)\<close>. \<^verbatim>\<open>time.sleep\<close> raises
  \<^verbatim>\<open>ValueError\<close> on a negative duration.\<close>

definition respectful_delay :: "config \<Rightarrow> real \<Rightarrow> agent \<Rightarrow> agent \<times> error option" where
  "respectful_delay cfg jitter s =
     (let base = (case top_level_base_delay cfg of None \<Rightarrow> 1 | Some b \<Rightarrow> b);
          delay = base * delay_multiplier s
      in if delay * jitter < 0 then (s, Some ValueError)
         else (s\<lparr>slept := slept s @ [delay * jitter]\<rparr>, None))"

subsection \<open>Quality scores\<close>

text \<open>\<^verbatim>\<open>field in item and item[field]\<close>, as a truth value.\<close>

definition field_present :: "pydict \<Rightarrow> string \<Rightarrow> bool" where
  "field_present item field = (case map_of item field of None \<Rightarrow> False | Some v \<Rightarrow> truthy v)"

text \<open>The loop of \<^verbatim>\<open>check_completeness\<close>, with \<open>complete_items\<close> as accumulator.\<close>

fun count_complete :: "string list \<Rightarrow> pydict list \<Rightarrow> nat \<Rightarrow> nat" where
  "count_complete rf [] complete_items = complete_items"
| "count_complete rf (item # rest) complete_items =
     count_complete rf rest
       (if list_all (field_present item) rf then complete_items + 1 else complete_items)"

definition check_completeness :: "config \<Rightarrow> agent \<Rightarrow> error + real" where
  "check_completeness cfg s =
     (if data_store s = [] then Inr 0
      else case required_fields (data_quality cfg) of
             None \<Rightarrow> Inl (KeyError ''required_fields'')
           | Some rf \<Rightarrow>
               Inr (real (count_complete rf (data_store s) 0) / real (length (data_store s))))"

definition check_accuracy :: real where
  "check_accuracy = 0.9"

definition check_consistency :: real where
  "check_consistency = 0.85"

text \<open>The body of the loop of \<^verbatim>\<open>check_timeliness\<close> for one item. \<open>fromiso\<close> stands for
  \<^verbatim>\<open>datetime.fromisoformat\<close>: the naive local time of the string in seconds, or \<open>None\<close> when
  the \<^verbatim>\<open>try\<close> block raises on it (a malformed string, or one with a UTC offset, whose
  difference to the naive \<^verbatim>\<open>datetime.now()\<close> is a \<^verbatim>\<open>TypeError\<close>). A value that is not a
  string raises there too. The bare \<^verbatim>\<open>except\<close> swallows all of them.\<close>

definition is_fresh :: "(string \<Rightarrow> real option) \<Rightarrow> real \<Rightarrow> real \<Rightarrow> pydict \<Rightarrow> bool" where
  "is_fresh fromiso current_time max_age item =
     (case map_of item ''collected_at'' of
        None \<Rightarrow> False
      | Some (JStr t) \<Rightarrow>
          (case fromiso t of
             None \<Rightarrow> False
           | Some collected_time \<Rightarrow> (current_time - collected_time) / 3600 \<le> max_age)
      | Some _ \<Rightarrow> False)"

fun count_fresh :: "(string \<Rightarrow> real option) \<Rightarrow> real \<Rightarrow> real \<Rightarrow> pydict list \<Rightarrow> nat \<Rightarrow> nat" where
  "count_fresh fromiso current_time max_age [] fresh_items = fresh_items"
| "count_fresh fromiso current_time max_age (item # rest) fresh_items =
     count_fresh fromiso current_time max_age rest
       (if is_fresh fromiso current_time max_age item then fresh_items + 1 else fresh_items)"

definition check_timeliness ::
  "(string \<Rightarrow> real option) \<Rightarrow> real \<Rightarrow> config \<Rightarrow> agent \<Rightarrow> error + real" where
  "check_timeliness fromiso current_time cfg s =
     (if data_store s = [] then Inr 0
      else case max_age_hours (data_quality cfg) of
             None \<Rightarrow> Inl (KeyError ''max_age_hours'')
           | Some max_age \<Rightarrow>
               Inr (real (count_fresh fromiso current_time max_age (data_store s) 0)
                    / real (length (data_store s))))"

text \<open>\<^verbatim>\<open>assess_data_quality\<close>: the dict of the four metrics is built in this order, so the
  first \<^verbatim>\<open>KeyError\<close> is the one raised; then \<^verbatim>\<open>sum(values) / len(metrics)\<close>.\<close>

definition assess_data_quality ::
  "(string \<Rightarrow> real option) \<Rightarrow> real \<Rightarrow> config \<Rightarrow> agent \<Rightarrow> error + real" where
  "assess_data_quality fromiso current_time cfg s =
     (if data_store s = [] then Inr 0
      else case check_completeness cfg s of
             Inl e \<Rightarrow> Inl e
           | Inr completeness \<Rightarrow>
               (case check_timeliness fromiso current_time cfg s of
                  Inl e \<Rightarrow> Inl e
                | Inr timeliness \<Rightarrow>
                    (let quality_metrics =
                           [completeness, check_accuracy, check_consistency, timeliness]
                     in Inr (sum_list quality_metrics / real (length quality_metrics)))))"

subsection \<open>Transformation, validation and storage\<close>

text \<open>\<^verbatim>\<open>for item in raw_data['items']\<close>: a list yields its elements, a string its
  characters, a dict its keys; nothing else is iterable.\<close>

fun iterate :: "json \<Rightarrow> error + json list" where
  "iterate (JList xs) = Inr xs"
| "iterate (JStr s) = Inr (map (\<lambda>c. JStr [c]) s)"
| "iterate (JDict d) = Inr (map (\<lambda>kv. JStr (fst kv)) d)"
| "iterate _ = Inl TypeError"

text \<open>One pass of the loop body of \<^verbatim>\<open>process_data\<close>; \<open>stamp\<close> is
  \<^verbatim>\<open>datetime.now().isoformat()\<close>. Only a dict has \<^verbatim>\<open>.get\<close>.\<close>

fun process_item :: "string \<Rightarrow> json \<Rightarrow> error + pydict" where
  "process_item stamp (JDict item) =
     Inr [(''name'', dict_get item ''name'' (JStr [])),
          (''elixir_cost'', dict_get item ''elixirCost'' (JInt 0)),
          (''type'', dict_get item ''type'' (JStr [])),
          (''rarity'', dict_get item ''rarity'' (JStr [])),
          (''collected_at'', JStr stamp)]"
| "process_item stamp _ = Inl AttributeError"

text \<open>\<open>clock k\<close> is the time stamp read while the \<open>k\<close>-th item is transformed.\<close>

fun process_items :: "(nat \<Rightarrow> string) \<Rightarrow> nat \<Rightarrow> json list \<Rightarrow> error + pydict list" where
  "process_items clock k [] = Inr []"
| "process_items clock k (item # rest) =
     (case process_item (clock k) item of
        Inl e \<Rightarrow> Inl e
      | Inr processed_item \<Rightarrow>
          (case process_items clock (Suc k) rest of
             Inl e \<Rightarrow> Inl e
           | Inr processed \<Rightarrow> Inr (processed_item # processed)))"

text \<open>\<^verbatim>\<open>process_data\<close> on the dict that \<^verbatim>\<open>make_api_request\<close> returned.\<close>

definition process_data :: "(nat \<Rightarrow> string) \<Rightarrow> pydict \<Rightarrow> error + pydict list option" where
  "process_data clock raw_data =
     (if raw_data = [] \<or> map_of raw_data ''items'' = None then Inr None
      else case iterate (dict_get raw_data ''items'' JNull) of
             Inl e \<Rightarrow> Inl e
           | Inr items \<Rightarrow>
               (case process_items clock 0 items of
                  Inl e \<Rightarrow> Inl e
                | Inr processed_items \<Rightarrow> Inr (Some processed_items)))"

text \<open>The two nested loops of \<^verbatim>\<open>validate_data\<close>, each leaving at the first field that is
  absent or falsy.\<close>

fun fields_valid :: "string list \<Rightarrow> pydict \<Rightarrow> bool" where
  "fields_valid [] item = True"
| "fields_valid (field # rest) item =
     (case map_of item field of
        None \<Rightarrow> False
      | Some v \<Rightarrow> if \<not> truthy v then False else fields_valid rest item)"

fun items_valid :: "string list \<Rightarrow> pydict list \<Rightarrow> bool" where
  "items_valid rf [] = True"
| "items_valid rf (item # rest) = (if fields_valid rf item then items_valid rf rest else False)"

definition validate_data :: "config \<Rightarrow> pydict list option \<Rightarrow> error + bool" where
  "validate_data cfg data =
     (case data of
        None \<Rightarrow> Inr False
      | Some [] \<Rightarrow> Inr False
      | Some items \<Rightarrow>
          (case required_fields (data_quality cfg) of
             None \<Rightarrow> Inl (KeyError ''required_fields'')
           | Some rf \<Rightarrow> Inr (items_valid rf items)))"

subsection \<open>One fetch cycle\<close>

text \<open>What the outside world answers during one pass of the collection loop. \<open>fetched\<close> is
  the outcome of the \<^verbatim>\<open>try\<close> block of \<^verbatim>\<open>make_api_request\<close> up to the response: a response
  with its status code and the value of \<^verbatim>\<open>response.json()\<close> (\<open>None\<close> when that call raises),
  or the exception that \<^verbatim>\<open>socket.create_connection\<close> or \<^verbatim>\<open>requests.get\<close> raised, named
  by the handler that catches it. \<open>raw_save_raises\<close> and \<open>processed_save_raises\<close> say whether
  the unguarded start of \<^verbatim>\<open>save_raw_data\<close> and \<^verbatim>\<open>save_processed_data\<close> (reading
  \<^verbatim>\<open>config['storage']\<close>, \<^verbatim>\<open>os.makedirs\<close>, formatting the file name) raises.\<close>

datatype fetch_outcome =
    Response int "json option"
  | Gaierror
  | SocketTimeout
  | RequestsTimeout
  | RequestsConnectionError
  | RequestException
  | OtherException

record cycle_env =
  fetched :: fetch_outcome
  raw_save_raises :: bool
  processed_save_raises :: bool
  clock :: "nat \<Rightarrow> string"
  now :: real
  jitter :: real

text \<open>\<^verbatim>\<open>len(x)\<close> is defined on strings, lists and dicts only.\<close>

fun has_len :: "json \<Rightarrow> bool" where
  "has_len (JStr _) = True"
| "has_len (JList _) = True"
| "has_len (JDict _) = True"
| "has_len _ = False"

text \<open>Where \<^verbatim>\<open>generate_comprehensive_metadata\<close> can raise. For a dict with the key
  \<^verbatim>\<open>items\<close> it takes \<^verbatim>\<open>len(items)\<close> and, when \<^verbatim>\<open>items\<close> is not empty, \<^verbatim>\<open>items[0]\<close>, which
  is a \<^verbatim>\<open>KeyError\<close> on a dict, whose keys are strings. Later it evaluates
  \<^verbatim>\<open>self.check_completeness() if self.data_store else 0\<close>.\<close>

definition generate_comprehensive_metadata :: "config \<Rightarrow> agent \<Rightarrow> json \<Rightarrow> error option" where
  "generate_comprehensive_metadata cfg s data =
     (let sample_item_raises =
            (case data of
               JDict d \<Rightarrow>
                 (case map_of d ''items'' of
                    None \<Rightarrow> None
                  | Some items \<Rightarrow>
                      if \<not> has_len items then Some TypeError
                      else (case items of
                              JDict (kv # rest) \<Rightarrow> Some (KeyError ''0'')
                            | _ \<Rightarrow> None))
             | _ \<Rightarrow> None)
      in case sample_item_raises of
           Some e \<Rightarrow> Some e
         | None \<Rightarrow>
             if data_store s \<noteq> [] then
               (case check_completeness cfg s of Inl e \<Rightarrow> Some e | Inr _ \<Rightarrow> None)
             else None)"

text \<open>\<^verbatim>\<open>save_raw_data\<close> and \<^verbatim>\<open>save_processed_data\<close> write a file and change nothing in the
  agent; the model keeps the exception they may raise. Writing the file itself is guarded.\<close>

definition save_raw_data :: "config \<Rightarrow> cycle_env \<Rightarrow> agent \<Rightarrow> pydict \<Rightarrow> error option" where
  "save_raw_data cfg env s raw_data =
     (if raw_save_raises env then Some OSError
      else generate_comprehensive_metadata cfg s (JDict raw_data))"

definition save_processed_data ::
  "(string \<Rightarrow> real option) \<Rightarrow> config \<Rightarrow> cycle_env \<Rightarrow> agent \<Rightarrow> pydict list
     \<Rightarrow> error option" where
  "save_processed_data fromiso cfg env s processed_data =
     (if processed_save_raises env then Some OSError
      else case generate_comprehensive_metadata cfg s (JList (map JDict processed_data)) of
             Some e \<Rightarrow> Some e
           | None \<Rightarrow>
               (case check_completeness cfg s of
                  Inl e \<Rightarrow> Some e
                | Inr _ \<Rightarrow>
                    (case check_timeliness fromiso (now env) cfg s of
                       Inl e \<Rightarrow> Some e
                     | Inr _ \<Rightarrow> None)))"

text \<open>\<^verbatim>\<open>make_api_request\<close>. Every branch for a status other than 200 and every \<^verbatim>\<open>except\<close>
  handler adds one to \<open>failed_requests\<close> and returns \<^verbatim>\<open>None\<close>. In the branch for 200,
  \<open>successful_requests\<close> is incremented first; \<^verbatim>\<open>response.json()\<close>,
  \<^verbatim>\<open>len(raw_data.get('items', []))\<close> and \<^verbatim>\<open>save_raw_data\<close> come after it inside the same
  \<^verbatim>\<open>try\<close>, so what they raise reaches the last handler (\<^verbatim>\<open>except Exception\<close>).\<close>

definition request_failed :: "agent \<Rightarrow> agent \<times> pydict option" where
  "request_failed s = (s\<lparr>failed_requests := failed_requests s + 1\<rparr>, None)"

definition make_api_request :: "config \<Rightarrow> cycle_env \<Rightarrow> agent \<Rightarrow> agent \<times> pydict option" where
  "make_api_request cfg env s =
     (let s1 = s\<lparr>total_requests := total_requests s + 1\<rparr>
      in case fetched env of
           Response status_code body \<Rightarrow>
             if status_code = 200 then
               (let s2 = s1\<lparr>successful_requests := successful_requests s1 + 1\<rparr>
                in case body of
                     None \<Rightarrow> request_failed s2
                   | Some (JDict raw_data) \<Rightarrow>
                       if \<not> has_len (dict_get raw_data ''items'' (JList [])) then
                         request_failed s2
                       else (case save_raw_data cfg env s2 raw_data of
                               Some e \<Rightarrow> request_failed s2
                             | None \<Rightarrow> (s2, Some raw_data))
                   | Some _ \<Rightarrow> request_failed s2)
             else if status_code = 403 then request_failed s1
             else if status_code = 429 then request_failed s1
             else if status_code = 401 then request_failed s1
             else request_failed s1
         | Gaierror \<Rightarrow> request_failed s1
         | SocketTimeout \<Rightarrow> request_failed s1
         | RequestsTimeout \<Rightarrow> request_failed s1
         | RequestsConnectionError \<Rightarrow> request_failed s1
         | RequestException \<Rightarrow> request_failed s1
         | OtherException \<Rightarrow> request_failed s1)"

text \<open>\<^verbatim>\<open>store_data\<close>: the batch is appended before \<^verbatim>\<open>save_processed_data\<close> runs, so it stays
  in the store when saving raises.\<close>

definition store_data ::
  "(string \<Rightarrow> real option) \<Rightarrow> config \<Rightarrow> cycle_env \<Rightarrow> agent \<Rightarrow> pydict list
     \<Rightarrow> agent \<times> error option" where
  "store_data fromiso cfg env s data =
     (let s' = s\<lparr>data_store := data_store s @ data\<rparr>
      in (s', save_processed_data fromiso cfg env s' data))"

subsection \<open>The collection loop\<close>

text \<open>\<^verbatim>\<open>if self.validate_data(processed_data): self.store_data(processed_data)\<close>, as it
  stands in \<^verbatim>\<open>collect_data\<close>. \<^verbatim>\<open>store_data(None)\<close> would raise in \<^verbatim>\<open>extend\<close>.\<close>

definition validate_store ::
  "(string \<Rightarrow> real option) \<Rightarrow> config \<Rightarrow> cycle_env \<Rightarrow> agent \<Rightarrow> pydict list option
     \<Rightarrow> agent \<times> error option" where
  "validate_store fromiso cfg env s processed_data =
     (case validate_data cfg processed_data of
        Inl e \<Rightarrow> (s, Some e)
      | Inr valid \<Rightarrow>
          if valid then
            (case processed_data of
               None \<Rightarrow> (s, Some TypeError)
             | Some items \<Rightarrow> store_data fromiso cfg env s items)
          else (s, None))"

text \<open>The \<^verbatim>\<open>if data:\<close> block of \<^verbatim>\<open>collect_data\<close>: transform, then validate and store.\<close>

definition process_validate_store ::
  "(string \<Rightarrow> real option) \<Rightarrow> config \<Rightarrow> cycle_env \<Rightarrow> agent \<Rightarrow> pydict
     \<Rightarrow> agent \<times> error option" where
  "process_validate_store fromiso cfg env s raw_data =
     (case process_data (clock env) raw_data of
        Inl e \<Rightarrow> (s, Some e)
      | Inr processed_data \<Rightarrow> validate_store fromiso cfg env s processed_data)"

text \<open>The body of the \<^verbatim>\<open>while\<close> loop. The second component is the exception that leaves
  the body, if any: \<^verbatim>\<open>collect_data\<close> has no handler.\<close>

definition iteration ::
  "(string \<Rightarrow> real option) \<Rightarrow> config \<Rightarrow> cycle_env \<Rightarrow> agent \<Rightarrow> agent \<times> error option" where
  "iteration fromiso cfg env s =
     (case assess_data_quality fromiso (now env) cfg s of
        Inl e \<Rightarrow> (s, Some e)
      | Inr quality_score \<Rightarrow>
          (let s1 = (if get_success_rate s < 0.8 then adjust_strategy cfg s else s);
               (s2, data) = make_api_request cfg env s1;
               (s3, raised) =
                 (case data of
                    None \<Rightarrow> (s2, None)
                  | Some raw_data \<Rightarrow>
                      if raw_data = [] then (s2, None)
                      else process_validate_store fromiso cfg env s2 raw_data)
           in case raised of
                Some e \<Rightarrow> (s3, Some e)
              | None \<Rightarrow> respectful_delay cfg (jitter env) s3))"

lemma try_fallback_api_total [simp]:
  "total_requests (try_fallback_api cfg s) = total_requests s"
  by (simp add: try_fallback_api_def split: list.splits)

lemma adjust_strategy_total [simp]:
  "total_requests (adjust_strategy cfg s) = total_requests s"
  by (simp add: adjust_strategy_def Let_def)

lemma make_api_request_total [simp]:
  "total_requests (fst (make_api_request cfg env s)) = total_requests s + 1"
  by (simp add: make_api_request_def request_failed_def Let_def
      split: fetch_outcome.splits option.splits json.splits)

lemma process_validate_store_total [simp]:
  "total_requests (fst (process_validate_store fromiso cfg env s raw)) = total_requests s"
  by (simp add: process_validate_store_def validate_store_def store_data_def Let_def
      split: sum.splits option.splits)

lemma respectful_delay_total [simp]:
  "total_requests (fst (respectful_delay cfg j s)) = total_requests s"
  by (simp add: respectful_delay_def Let_def)

lemma respectful_delay_total_eq:
  "respectful_delay cfg j s = (s', r) \<Longrightarrow> total_requests s' = total_requests s"
  using respectful_delay_total [of cfg j s] by simp

lemma iteration_total:
  assumes "iteration fromiso cfg env s = (s', None)"
  shows "total_requests s' = total_requests s + 1"
  using assms
  by (auto simp: iteration_def Let_def split_beta
      split: sum.splits option.splits if_splits dest!: respectful_delay_total_eq)

text \<open>\<^verbatim>\<open>collect_data\<close>: \<open>env i\<close> is what the world answers in the \<open>i\<close>-th pass.\<close>

function collect_data ::
  "(string \<Rightarrow> real option) \<Rightarrow> config \<Rightarrow> (nat \<Rightarrow> cycle_env) \<Rightarrow> nat \<Rightarrow> agent
     \<Rightarrow> agent \<times> error option" where
  "collect_data fromiso cfg env i s =
     (if collection_complete cfg s then (s, None)
      else case iteration fromiso cfg (env i) s of
             (s', Some e) \<Rightarrow> (s', Some e)
           | (s', None) \<Rightarrow> collect_data fromiso cfg env (Suc i) s')"
  by pat_completeness auto
termination
proof (relation "measure (\<lambda>(fromiso, cfg, env, i, s).
                    nat (max_requests (agent_settings cfg) - total_requests s))", goal_cases)
  case 1
  show ?case by simp
next
  case (2 fromiso cfg env i s s' r)
  then have "total_requests s' = total_requests s + 1"
    and "total_requests s < max_requests (agent_settings cfg)"
    using iteration_total [of fromiso cfg "env i" s s']
    by (simp_all add: collection_complete_def)
  then show ?case by simp
qed

declare collect_data.simps [simp del]

section \<open>Concrete inputs\<close>

text \<open>A configuration file with \<^verbatim>\<open>agent_settings.base_delay = 5\<close>, three requests, one fallback
  endpoint, two required fields and a maximal age of 24 hours; it has no top-level
  \<^verbatim>\<open>base_delay\<close>.\<close>

definition demo_config :: config where
  "demo_config =
     \<lparr> top_level_base_delay = None,
       agent_settings = \<lparr> base_delay = 5, max_requests = 3, timeout = 10, retry_attempts = 3 \<rparr>,
       api_settings = \<lparr> primary_api = Some ''primary'', fallback_apis = Some [''fallback''] \<rparr>,
       data_quality = \<lparr> required_fields = Some [''name'', ''elixir_cost''],
                        max_age_hours = Some 24 \<rparr> \<rparr>"

text \<open>A clock that reads two time stamps, noon and one o'clock, in seconds since midnight.\<close>

definition demo_fromiso :: "string \<Rightarrow> real option" where
  "demo_fromiso t =
     (if t = ''2025-01-01T12:00:00'' then Some 43200
      else if t = ''2025-01-01T13:00:00'' then Some 46800
      else None)"

definition knight :: pydict where
  "knight = [(''name'', JStr ''Knight''), (''elixir_cost'', JInt 3), (''type'', JStr ''Troop''),
             (''rarity'', JStr ''Common''), (''collected_at'', JStr ''2025-01-01T12:00:00'')]"

definition archers :: pydict where
  "archers = [(''name'', JStr ''Archers''), (''elixir_cost'', JInt 3), (''type'', JStr ''Troop''),
              (''rarity'', JStr ''Common''), (''collected_at'', JStr ''2025-01-01T13:00:00'')]"

text \<open>A card whose raw item has no \<^verbatim>\<open>elixirCost\<close>, after \<^verbatim>\<open>process_data\<close>.\<close>

definition mirror :: pydict where
  "mirror = [(''name'', JStr ''Mirror''), (''elixir_cost'', JInt 0), (''type'', JStr ''Spell''),
             (''rarity'', JStr ''Epic''), (''collected_at'', JStr ''2025-01-01T13:00:00'')]"

text \<open>A cycle environment around a given fetch outcome: nothing raises while saving, every
  item is stamped one o'clock, the clock reads two o'clock, the jitter is 1.\<close>

definition demo_env :: "fetch_outcome \<Rightarrow> cycle_env" where
  "demo_env outcome =
     \<lparr> fetched = outcome, raw_save_raises = False, processed_save_raises = False,
       clock = (\<lambda>k. ''2025-01-01T13:00:00''), now = 50400, jitter = 1 \<rparr>"

section \<open>Success rate\<close>

text \<open>C4. \<^verbatim>\<open>get_success_rate\<close> returns exactly 1 when \<open>total_requests\<close> is 0, and
  \<open>successful_requests / total_requests\<close> for every \<open>total_requests > 0\<close>.\<close>

theorem get_success_rate_value:
  "(total_requests s = 0 \<longrightarrow> get_success_rate s = 1) \<and>
   (total_requests s > 0 \<longrightarrow>
      get_success_rate s = real_of_int (successful_requests s) / real_of_int (total_requests s))"
  by (simp add: get_success_rate_def)

theorem get_success_rate_value_witness:
  "total_requests (init demo_config) = 0 \<and> get_success_rate (init demo_config) = 1 \<and>
   total_requests ((init demo_config)\<lparr>total_requests := 4, successful_requests := 3\<rparr>) > 0 \<and>
   get_success_rate ((init demo_config)\<lparr>total_requests := 4, successful_requests := 3\<rparr>) = 3 / 4"
  using get_success_rate_value [of "init demo_config"]
    get_success_rate_value [of "(init demo_config)\<lparr>total_requests := 4, successful_requests := 3\<rparr>"]
  by (simp add: init_def)

section \<open>Strategy adjustment\<close>

text \<open>C2. \<^verbatim>\<open>adjust_strategy\<close> is this case analysis on the success rate: below 0.5 the delay
  multiplier is doubled and the endpoint becomes the first fallback endpoint when the
  fallback list is not empty and its first element differs from the current endpoint; else,
  above 0.9, the delay multiplier is multiplied by 0.8 and the endpoint stays; else (from 0.5
  to 0.9) the agent is unchanged. The counters and the data store never change.\<close>

theorem adjust_strategy_cases:
  "(let fallback = (case fallback_apis (api_settings cfg) of None \<Rightarrow> [] | Some f \<Rightarrow> f)
    in (get_success_rate s < 0.5 \<longrightarrow>
          delay_multiplier (adjust_strategy cfg s) = 2 * delay_multiplier s \<and>
          current_api (adjust_strategy cfg s) =
            (if fallback \<noteq> [] \<and> hd fallback \<noteq> current_api s then hd fallback
             else current_api s)) \<and>
       (0.5 \<le> get_success_rate s \<and> get_success_rate s > 0.9 \<longrightarrow>
          delay_multiplier (adjust_strategy cfg s) = delay_multiplier s * 0.8 \<and>
          current_api (adjust_strategy cfg s) = current_api s) \<and>
       (0.5 \<le> get_success_rate s \<and> get_success_rate s \<le> 0.9 \<longrightarrow>
          adjust_strategy cfg s = s) \<and>
       total_requests (adjust_strategy cfg s) = total_requests s \<and>
       successful_requests (adjust_strategy cfg s) = successful_requests s \<and>
       failed_requests (adjust_strategy cfg s) = failed_requests s \<and>
       data_store (adjust_strategy cfg s) = data_store s)"
  by (cases "fallback_apis (api_settings cfg)")
     (auto simp: adjust_strategy_def try_fallback_api_def Let_def split: list.splits)

text \<open>The three examples of the specification: success rates 0.3, 0.95 and 0.7, each from a
  delay multiplier of 1.\<close>

theorem adjust_strategy_cases_witness:
  "get_success_rate ((init demo_config)\<lparr>total_requests := 10, successful_requests := 3\<rparr>) < 0.5 \<and>
   delay_multiplier
     (adjust_strategy demo_config
        ((init demo_config)\<lparr>total_requests := 10, successful_requests := 3\<rparr>)) = 2 \<and>
   current_api
     (adjust_strategy demo_config
        ((init demo_config)\<lparr>total_requests := 10, successful_requests := 3\<rparr>)) = ''fallback'' \<and>
   get_success_rate ((init demo_config)\<lparr>total_requests := 20, successful_requests := 19\<rparr>) > 0.9 \<and>
   delay_multiplier
     (adjust_strategy demo_config
        ((init demo_config)\<lparr>total_requests := 20, successful_requests := 19\<rparr>)) = 0.8 \<and>
   adjust_strategy demo_config
     ((init demo_config)\<lparr>total_requests := 10, successful_requests := 7\<rparr>)
     = (init demo_config)\<lparr>total_requests := 10, successful_requests := 7\<rparr>"
proof -
  let ?low = "(init demo_config)\<lparr>total_requests := 10, successful_requests := 3\<rparr>"
  let ?high = "(init demo_config)\<lparr>total_requests := 20, successful_requests := 19\<rparr>"
  let ?mid = "(init demo_config)\<lparr>total_requests := 10, successful_requests := 7\<rparr>"
  have r: "get_success_rate ?low = 3 / 10" "get_success_rate ?high = 19 / 20"
    "get_success_rate ?mid = 7 / 10"
    by (simp_all add: get_success_rate_def)
  have c: "fallback_apis (api_settings demo_config) = Some [''fallback'']"
    "delay_multiplier (init demo_config) = 1" "current_api (init demo_config) = ''primary''"
    by (simp_all add: init_def demo_config_def)
  have "delay_multiplier (adjust_strategy demo_config ?low) = 2"
    and "current_api (adjust_strategy demo_config ?low) = ''fallback''"
    using adjust_strategy_cases [of demo_config ?low] by (simp_all add: r c)
  moreover have "delay_multiplier (adjust_strategy demo_config ?high) = 0.8"
    using adjust_strategy_cases [of demo_config ?high] by (simp add: r c)
  moreover have "adjust_strategy demo_config ?mid = ?mid"
    using adjust_strategy_cases [of demo_config ?mid] by (simp add: r c)
  ultimately show ?thesis
    by (simp add: r)
qed

section \<open>Request counters\<close>

text \<open>One call of \<^verbatim>\<open>make_api_request\<close> moves the balance
  \<open>successful_requests + failed_requests - total_requests\<close> by one exactly when the response
  has status 200 and the call still returns \<^verbatim>\<open>None\<close>: the body does not parse, is not a
  dict, its \<^verbatim>\<open>items\<close> has no length, or saving the raw data raises. Otherwise the balance
  is kept.\<close>

lemma make_api_request_balance:
  "successful_requests (fst (make_api_request cfg env s))
     + failed_requests (fst (make_api_request cfg env s))
     - total_requests (fst (make_api_request cfg env s))
   = successful_requests s + failed_requests s - total_requests s
     + (if (\<exists>body. fetched env = Response 200 body) \<and> snd (make_api_request cfg env s) = None
        then 1 else 0)"
  by (simp add: make_api_request_def request_failed_def Let_def
      split: fetch_outcome.splits option.splits json.splits)

text \<open>C1. For every sequence of fetch cycles the counters satisfy
  \<open>successful_requests + failed_requests = total_requests\<close> between cycles. The code breaks
  this in the first cycle of a fresh agent when the response has status 200 and its body is
  not JSON: the request is counted as successful and as failed.\<close>

theorem unparsable_body_counted_twice:
  "total_requests (fst (make_api_request demo_config (demo_env (Response 200 None))
                          (init demo_config))) = 1 \<and>
   successful_requests (fst (make_api_request demo_config (demo_env (Response 200 None))
                               (init demo_config))) = 1 \<and>
   failed_requests (fst (make_api_request demo_config (demo_env (Response 200 None))
                           (init demo_config))) = 1"
  by (simp add: make_api_request_def request_failed_def demo_env_def init_def Let_def)

section \<open>Pacing\<close>

text \<open>What \<^verbatim>\<open>respectful_delay\<close> sleeps: the top-level \<^verbatim>\<open>base_delay\<close> of the configuration
  (1 when the key is absent) times the delay multiplier times the jitter. With that base at
  1, a multiplier of 2 and a jitter between 0.5 and 1.5, the duration lies between 1 and 3.\<close>

lemma respectful_delay_duration:
  assumes "0 \<le> (case top_level_base_delay cfg of None \<Rightarrow> 1 | Some b \<Rightarrow> b)
                 * delay_multiplier s * j"
  shows "respectful_delay cfg j s =
           (s\<lparr>slept := slept s @ [(case top_level_base_delay cfg of None \<Rightarrow> 1 | Some b \<Rightarrow> b)
                                    * delay_multiplier s * j]\<rparr>, None)"
  using assms by (simp add: respectful_delay_def Let_def)

lemma respectful_delay_bounds:
  assumes "top_level_base_delay cfg = None \<or> top_level_base_delay cfg = Some 1"
    and "delay_multiplier s = 2" and "0.5 \<le> j" and "j \<le> 1.5"
  shows "\<exists>d. respectful_delay cfg j s = (s\<lparr>slept := slept s @ [d]\<rparr>, None) \<and> 1 \<le> d \<and> d \<le> 3"
  using assms by (auto simp: respectful_delay_def Let_def)

text \<open>C7. The sleep duration is \<open>base_delay * delay_multiplier * jitter\<close>, where \<open>base_delay\<close>
  is the configured \<^verbatim>\<open>agent_settings.base_delay\<close>. The code reads the key \<^verbatim>\<open>base_delay\<close> at
  the top level of the configuration instead: with \<^verbatim>\<open>agent_settings.base_delay = 5\<close>, a
  multiplier of 1 and a jitter of 1 it sleeps 1 second, not 5.\<close>

theorem respectful_delay_ignores_agent_settings:
  "base_delay (agent_settings demo_config) = 5 \<and>
   delay_multiplier (init demo_config) = 1 \<and>
   respectful_delay demo_config 1 (init demo_config) = ((init demo_config)\<lparr>slept := [1]\<rparr>, None)"
  by (simp add: respectful_delay_def demo_config_def init_def Let_def)

section \<open>Validation and storage of a batch\<close>

text \<open>The nested loops of \<^verbatim>\<open>validate_data\<close> compute a conjunction over all records and all
  required fields.\<close>

lemma fields_valid_iff: "fields_valid rf item = list_all (field_present item) rf"
  by (induction rf) (auto simp: field_present_def split: option.splits)

lemma items_valid_iff:
  "items_valid rf batch = (\<forall>item\<in>set batch. \<forall>f\<in>set rf. field_present item f)"
  by (induction batch) (simp_all add: fields_valid_iff list_all_iff)

lemma validate_data_batch:
  assumes "required_fields (data_quality cfg) = Some rf"
  shows "validate_data cfg (Some batch) = Inr (batch \<noteq> [] \<and> items_valid rf batch)"
  using assms by (cases batch) (simp_all add: validate_data_def)

lemma store_data_appends:
  "data_store (fst (store_data fromiso cfg env s batch)) = data_store s @ batch \<and>
   total_requests (fst (store_data fromiso cfg env s batch)) = total_requests s \<and>
   successful_requests (fst (store_data fromiso cfg env s batch)) = successful_requests s \<and>
   failed_requests (fst (store_data fromiso cfg env s batch)) = failed_requests s"
  by (simp add: store_data_def Let_def)

text \<open>Following the words of the specification: a required field must be present and its
  value must not be empty. A number or a truth value is never empty; the empty string, the
  empty list, the empty dict and \<^verbatim>\<open>None\<close> are.\<close>

fun empty_value :: "json \<Rightarrow> bool" where
  "empty_value JNull = True"
| "empty_value (JStr s) = (s = [])"
| "empty_value (JList xs) = (xs = [])"
| "empty_value (JDict d) = (d = [])"
| "empty_value _ = False"

definition present_nonempty :: "pydict \<Rightarrow> string \<Rightarrow> bool" where
  "present_nonempty item field =
     (case map_of item field of None \<Rightarrow> False | Some v \<Rightarrow> \<not> empty_value v)"

text \<open>C3, as stated: if every record of a batch has every required field present and
  non-empty, all records of the batch are appended. It fails for a batch of one record
  whose \<open>elixir_cost\<close> is the integer 0: both required fields are present and not empty, and
  nothing is stored.\<close>

theorem zero_cost_batch_not_stored:
  "required_fields (data_quality demo_config) = Some [''name'', ''elixir_cost''] \<and>
   present_nonempty mirror ''name'' \<and>
   present_nonempty mirror ''elixir_cost'' \<and>
   data_store (fst (validate_store demo_fromiso demo_config (demo_env OtherException)
                      (init demo_config) (Some [mirror]))) = []"
  by (simp add: validate_store_def validate_data_def present_nonempty_def mirror_def
      demo_config_def init_def)

text \<open>C3, amended: let the required fields be configured. If some record of the batch lacks
  a required field or holds a falsy value for it (\<^verbatim>\<open>None\<close>, \<^verbatim>\<open>False\<close>, zero, an empty string,
  list or dict), the step stores nothing, raises nothing and leaves the agent, its request
  counters included, as it was. If every record holds a truthy value for every required
  field, the records of the batch are appended to the data store in their order and the
  request counters are unchanged.\<close>

theorem validate_store_all_or_nothing:
  assumes "required_fields (data_quality cfg) = Some rf"
  shows "((\<exists>item\<in>set batch. \<exists>f\<in>set rf. \<not> field_present item f) \<longrightarrow>
            validate_store fromiso cfg env s (Some batch) = (s, None)) \<and>
         ((\<forall>item\<in>set batch. \<forall>f\<in>set rf. field_present item f) \<longrightarrow>
            data_store (fst (validate_store fromiso cfg env s (Some batch)))
              = data_store s @ batch \<and>
            total_requests (fst (validate_store fromiso cfg env s (Some batch)))
              = total_requests s \<and>
            successful_requests (fst (validate_store fromiso cfg env s (Some batch)))
              = successful_requests s \<and>
            failed_requests (fst (validate_store fromiso cfg env s (Some batch)))
              = failed_requests s)"
proof (intro conjI impI)
  assume "\<exists>item\<in>set batch. \<exists>f\<in>set rf. \<not> field_present item f"
  then have "\<not> items_valid rf batch"
    by (simp add: items_valid_iff)
  then show "validate_store fromiso cfg env s (Some batch) = (s, None)"
    by (simp add: validate_store_def validate_data_batch [OF assms])
next
  assume "\<forall>item\<in>set batch. \<forall>f\<in>set rf. field_present item f"
  then have v: "items_valid rf batch"
    by (simp add: items_valid_iff)
  have r: "validate_store fromiso cfg env s (Some batch) =
             (if batch = [] then (s, None) else store_data fromiso cfg env s batch)"
    using v by (simp add: validate_store_def validate_data_batch [OF assms])
  show "data_store (fst (validate_store fromiso cfg env s (Some batch))) = data_store s @ batch"
    by (simp add: r store_data_appends)
  show "total_requests (fst (validate_store fromiso cfg env s (Some batch))) = total_requests s"
    by (simp add: r store_data_appends)
  show "successful_requests (fst (validate_store fromiso cfg env s (Some batch)))
          = successful_requests s"
    by (simp add: r store_data_appends)
  show "failed_requests (fst (validate_store fromiso cfg env s (Some batch))) = failed_requests s"
    by (simp add: r store_data_appends)
qed

text \<open>A batch of two complete records is stored in order; the same batch with the zero-cost
  record in second place is dropped as a whole.\<close>

theorem validate_store_all_or_nothing_witness:
  "required_fields (data_quality demo_config) = Some [''name'', ''elixir_cost''] \<and>
   \<not> field_present mirror ''elixir_cost'' \<and>
   validate_store demo_fromiso demo_config (demo_env OtherException) (init demo_config)
     (Some [knight, mirror]) = (init demo_config, None) \<and>
   data_store (fst (validate_store demo_fromiso demo_config (demo_env OtherException)
                      (init demo_config) (Some [knight, archers]))) = [knight, archers]"
proof -
  have rf: "required_fields (data_quality demo_config) = Some [''name'', ''elixir_cost'']"
    by (simp add: demo_config_def)
  have m: "\<not> field_present mirror ''elixir_cost''"
    by (simp add: field_present_def mirror_def)
  have bad: "\<exists>item\<in>set [knight, mirror]. \<exists>f\<in>set [''name'', ''elixir_cost'']. \<not> field_present item f"
    using m by simp
  have good: "\<forall>item\<in>set [knight, archers]. \<forall>f\<in>set [''name'', ''elixir_cost'']. field_present item f"
    by (simp add: field_present_def knight_def archers_def)
  have e: "data_store (init demo_config) = []"
    by (simp add: init_def)
  show ?thesis
    using validate_store_all_or_nothing
            [OF rf, of "[knight, mirror]" demo_fromiso "demo_env OtherException" "init demo_config"]
          validate_store_all_or_nothing
            [OF rf, of "[knight, archers]" demo_fromiso "demo_env OtherException" "init demo_config"]
          bad good rf m e
    by simp
qed

text \<open>\<^verbatim>\<open>process_data\<close> gives a record the cost 0 for every raw item without
  \<^verbatim>\<open>elixirCost\<close>.\<close>

lemma process_items_default_cost:
  assumes "process_items stamps k items = Inr batch" and "JDict raw \<in> set items"
    and "map_of raw ''elixirCost'' = None"
  shows "\<exists>item\<in>set batch. map_of item ''elixir_cost'' = Some (JInt 0)"
  using assms
proof (induction items arbitrary: k batch)
  case Nil
  then show ?case by simp
next
  case (Cons x xs)
  from Cons.prems(1) obtain r rs where
    x: "process_item (stamps k) x = Inr r" and xs: "process_items stamps (Suc k) xs = Inr rs"
    and b: "batch = r # rs"
    by (auto split: sum.splits)
  show ?case
  proof (cases "x = JDict raw")
    case True
    with x Cons.prems(3) have "map_of r ''elixir_cost'' = Some (JInt 0)"
      by (auto simp: dict_get_def)
    with b show ?thesis by simp
  next
    case False
    with Cons.prems(2) have "JDict raw \<in> set xs" by simp
    from Cons.IH [OF xs this Cons.prems(3)] b show ?thesis by simp
  qed
qed

text \<open>C10. Validation treats every falsy value of a required field as missing: zero, the
  empty string, \<^verbatim>\<open>None\<close>, \<^verbatim>\<open>False\<close> and the empty containers are all falsy. A raw item
  without \<^verbatim>\<open>elixirCost\<close> is transformed into a record whose \<open>elixir_cost\<close> is the integer 0. A
  batch with a record whose value for a required field is present but falsy fails
  \<^verbatim>\<open>validate_data\<close> and is discarded as a whole. So when \<open>elixir_cost\<close> is required, a response
  with one item that lacks \<^verbatim>\<open>elixirCost\<close> stores nothing.\<close>

theorem falsy_required_field_discards_batch:
  "(\<not> truthy (JInt 0) \<and> \<not> truthy (JStr []) \<and> \<not> truthy JNull \<and> \<not> truthy (JBool False) \<and>
    \<not> truthy (JNum 0) \<and> \<not> truthy (JList []) \<and> \<not> truthy (JDict [])) \<and>
   (map_of raw ''elixirCost'' = None \<longrightarrow>
      (\<exists>item. process_item stamp (JDict raw) = Inr item \<and>
              map_of item ''elixir_cost'' = Some (JInt 0))) \<and>
   (required_fields (data_quality cfg) = Some rf \<and> item \<in> set batch \<and> f \<in> set rf \<and>
    map_of item f = Some v \<and> \<not> truthy v \<longrightarrow>
      validate_data cfg (Some batch) = Inr False \<and>
      validate_store fromiso cfg env s (Some batch) = (s, None)) \<and>
   (required_fields (data_quality cfg) = Some rf \<and> ''elixir_cost'' \<in> set rf \<and>
    map_of raw_data ''items'' = Some (JList items) \<and> JDict raw \<in> set items \<and>
    map_of raw ''elixirCost'' = None \<longrightarrow>
      data_store (fst (process_validate_store fromiso cfg env s raw_data)) = data_store s)"
proof (intro conjI impI)
  assume "map_of raw ''elixirCost'' = None"
  then show "\<exists>item. process_item stamp (JDict raw) = Inr item \<and>
                    map_of item ''elixir_cost'' = Some (JInt 0)"
    by (simp add: dict_get_def)
next
  assume a: "required_fields (data_quality cfg) = Some rf \<and> item \<in> set batch \<and> f \<in> set rf \<and>
             map_of item f = Some v \<and> \<not> truthy v"
  then have "\<not> field_present item f"
    by (simp add: field_present_def)
  with a have n: "\<not> items_valid rf batch"
    by (auto simp: items_valid_iff)
  from a have rf: "required_fields (data_quality cfg) = Some rf" by simp
  show "validate_data cfg (Some batch) = Inr False"
    using n by (simp add: validate_data_batch [OF rf])
  then show "validate_store fromiso cfg env s (Some batch) = (s, None)"
    by (simp add: validate_store_def)
next
  assume a: "required_fields (data_quality cfg) = Some rf \<and> ''elixir_cost'' \<in> set rf \<and>
             map_of raw_data ''items'' = Some (JList items) \<and> JDict raw \<in> set items \<and>
             map_of raw ''elixirCost'' = None"
  then have rf: "required_fields (data_quality cfg) = Some rf" by simp
  from a have ne: "raw_data \<noteq> []" by auto
  show "data_store (fst (process_validate_store fromiso cfg env s raw_data)) = data_store s"
  proof (cases "process_items (clock env) 0 items")
    case (Inl e)
    with a ne show ?thesis
      by (simp add: process_validate_store_def process_data_def dict_get_def)
  next
    case (Inr batch)
    with a obtain item where i: "item \<in> set batch" "map_of item ''elixir_cost'' = Some (JInt 0)"
      using process_items_default_cost [of "clock env" 0 items batch raw] by auto
    then have "\<not> field_present item ''elixir_cost''"
      by (simp add: field_present_def)
    with i a have "\<not> items_valid rf batch"
      by (auto simp: items_valid_iff)
    then have "validate_data cfg (Some batch) = Inr False"
      by (simp add: validate_data_batch [OF rf])
    with Inr a ne show ?thesis
      by (simp add: process_validate_store_def process_data_def dict_get_def validate_store_def)
  qed
qed simp_all

theorem falsy_required_field_discards_batch_witness:
  "map_of [(''name'', JStr ''Mirror'')] ''elixirCost'' = None \<and>
   (\<exists>item. process_item ''2025-01-01T13:00:00'' (JDict [(''name'', JStr ''Mirror'')]) = Inr item \<and>
           map_of item ''elixir_cost'' = Some (JInt 0)) \<and>
   mirror \<in> set [knight, mirror] \<and>
   map_of mirror ''elixir_cost'' = Some (JInt 0) \<and>
   validate_data demo_config (Some [knight, mirror]) = Inr False \<and>
   validate_store demo_fromiso demo_config (demo_env OtherException) (init demo_config)
     (Some [knight, mirror]) = (init demo_config, None) \<and>
   data_store (fst (process_validate_store demo_fromiso demo_config (demo_env OtherException)
                      (init demo_config)
                      [(''items'', JList [JDict [(''name'', JStr ''Mirror'')]])])) = []"
proof -
  have rf: "required_fields (data_quality demo_config) = Some [''name'', ''elixir_cost'']"
    by (simp add: demo_config_def)
  have m: "map_of mirror ''elixir_cost'' = Some (JInt 0)"
    by (simp add: mirror_def)
  have e: "data_store (init demo_config) = []"
    by (simp add: init_def)
  show ?thesis
    using falsy_required_field_discards_batch
            [where raw = "[(''name'', JStr ''Mirror'')]" and stamp = "''2025-01-01T13:00:00''"
               and cfg = demo_config and rf = "[''name'', ''elixir_cost'']" and item = mirror
               and batch = "[knight, mirror]" and f = "''elixir_cost''" and v = "JInt 0"
               and fromiso = demo_fromiso and env = "demo_env OtherException"
               and s = "init demo_config"
               and raw_data = "[(''items'', JList [JDict [(''name'', JStr ''Mirror'')]])]"
               and items = "[JDict [(''name'', JStr ''Mirror'')]]"]
          rf m e
    by simp
qed

section \<open>Quality scores\<close>


lemma count_fresh_filter:
  "count_fresh fromiso t m items n = n + length (filter (is_fresh fromiso t m) items)"
  by (induction items arbitrary: n) simp_all


text \<open>Following the words of the specification: the age in hours of a record whose
  \<open>collected_at\<close> time stamp parses; \<open>None\<close> for a record without \<open>collected_at\<close> and for one
  whose \<open>collected_at\<close> does not parse.\<close>

definition age_hours :: "(string \<Rightarrow> real option) \<Rightarrow> real \<Rightarrow> pydict \<Rightarrow> real option" where
  "age_hours fromiso current_time item =
     (case map_of item ''collected_at'' of
        Some (JStr t) \<Rightarrow> map_option (\<lambda>c. (current_time - c) / 3600) (fromiso t)
      | _ \<Rightarrow> None)"

definition timely :: "(string \<Rightarrow> real option) \<Rightarrow> real \<Rightarrow> real \<Rightarrow> pydict \<Rightarrow> bool" where
  "timely fromiso current_time max_age item =
     (case age_hours fromiso current_time item of None \<Rightarrow> False | Some a \<Rightarrow> a \<le> max_age)"

lemma is_fresh_timely: "is_fresh fromiso t m item = timely fromiso t m item"
proof (cases "map_of item ''collected_at''")
  case None
  then show ?thesis
    by (simp add: is_fresh_def timely_def age_hours_def)
next
  case (Some v)
  show ?thesis
  proof (cases v)
    case (JStr x)
    with Some show ?thesis
      by (cases "fromiso x") (simp_all add: is_fresh_def timely_def age_hours_def)
  qed (simp_all add: Some is_fresh_def timely_def age_hours_def)
qed

lemma check_timeliness_count:
  assumes "max_age_hours (data_quality cfg) = Some m"
  shows "check_timeliness fromiso t cfg s =
           Inr (if data_store s = [] then 0
                else real (length (filter (timely fromiso t m) (data_store s)))
                     / real (length (data_store s)))"
proof -
  have "filter (is_fresh fromiso t m) (data_store s) = filter (timely fromiso t m) (data_store s)"
    by (rule filter_cong) (simp_all add: is_fresh_timely)
  then show ?thesis
    using assms by (simp add: check_timeliness_def count_fresh_filter)
qed

text \<open>C8. With \<open>max_age_hours\<close> configured, the timeliness score is the number of stored
  records whose \<open>collected_at\<close> parses and whose age is at most \<open>max_age_hours\<close>, divided by
  the number of stored records; it is 0 on an empty store. A record without \<open>collected_at\<close>
  or with one that does not parse is not counted in the numerator and is counted in the
  denominator.\<close>

theorem check_timeliness_fraction:
  assumes "max_age_hours (data_quality cfg) = Some m"
  shows "check_timeliness fromiso t cfg s =
           Inr (if data_store s = [] then 0
                else real (length (filter (timely fromiso t m) (data_store s)))
                     / real (length (data_store s))) \<and>
         (\<forall>item. age_hours fromiso t item = None \<longrightarrow> \<not> timely fromiso t m item) \<and>
         (\<forall>item. map_of item ''collected_at'' = None \<longrightarrow> age_hours fromiso t item = None)"
proof (intro conjI allI impI)
  show "check_timeliness fromiso t cfg s =
          Inr (if data_store s = [] then 0
               else real (length (filter (timely fromiso t m) (data_store s)))
                    / real (length (data_store s)))"
    by (rule check_timeliness_count [OF assms])
next
  fix item
  assume "age_hours fromiso t item = None"
  then show "\<not> timely fromiso t m item"
    by (simp add: timely_def)
next
  fix item :: pydict
  assume "map_of item ''collected_at'' = None"
  then show "age_hours fromiso t item = None"
    by (simp add: age_hours_def)
qed

text \<open>A store of three records read at two o'clock: one collected at noon, one whose time
  stamp does not parse and one without a time stamp. The score is one third.\<close>

theorem check_timeliness_fraction_witness:
  "max_age_hours (data_quality demo_config) = Some 24 \<and>
   age_hours demo_fromiso 50400 knight = Some 2 \<and>
   age_hours demo_fromiso 50400 [(''name'', JStr ''Giant''), (''collected_at'', JStr ''soon'')] = None \<and>
   age_hours demo_fromiso 50400 [(''name'', JStr ''Witch'')] = None \<and>
   check_timeliness demo_fromiso 50400 demo_config
     ((init demo_config)\<lparr>data_store :=
        [knight, [(''name'', JStr ''Giant''), (''collected_at'', JStr ''soon'')],
         [(''name'', JStr ''Witch'')]]\<rparr>) = Inr (1 / 3) \<and>
   check_timeliness demo_fromiso 50400 demo_config (init demo_config) = Inr 0"
proof -
  have m: "max_age_hours (data_quality demo_config) = Some 24"
    by (simp add: demo_config_def)
  have a: "age_hours demo_fromiso 50400 knight = Some 2"
    "age_hours demo_fromiso 50400 [(''name'', JStr ''Giant''), (''collected_at'', JStr ''soon'')]
       = None"
    "age_hours demo_fromiso 50400 [(''name'', JStr ''Witch'')] = None"
    by (simp_all add: age_hours_def knight_def demo_fromiso_def)
  have e: "data_store (init demo_config) = []"
    by (simp add: init_def)
  show ?thesis
    using check_timeliness_fraction
            [OF m, of demo_fromiso 50400
               "(init demo_config)\<lparr>data_store :=
                  [knight, [(''name'', JStr ''Giant''), (''collected_at'', JStr ''soon'')],
                   [(''name'', JStr ''Witch'')]]\<rparr>"]
          check_timeliness_fraction [OF m, of demo_fromiso 50400 "init demo_config"]
          m a e
    by (simp add: timely_def)
qed




section \<open>The delay multiplier\<close>


lemma try_fallback_api_multiplier [simp]:
  "delay_multiplier (try_fallback_api cfg s) = delay_multiplier s"
  by (simp add: try_fallback_api_def split: list.splits)







section \<open>The collection loop\<close>

text \<open>Only \<^verbatim>\<open>respectful_delay\<close> sleeps, once, at the end of a pass that raised nothing.\<close>

lemma try_fallback_api_slept [simp]: "slept (try_fallback_api cfg s) = slept s"
  by (simp add: try_fallback_api_def split: list.splits)

lemma adjust_strategy_slept [simp]: "slept (adjust_strategy cfg s) = slept s"
  by (simp add: adjust_strategy_def Let_def)

lemma make_api_request_slept [simp]: "slept (fst (make_api_request cfg env s)) = slept s"
  by (simp add: make_api_request_def request_failed_def Let_def
      split: fetch_outcome.splits option.splits json.splits)

lemma process_validate_store_slept [simp]:
  "slept (fst (process_validate_store fromiso cfg env s raw)) = slept s"
  by (simp add: process_validate_store_def validate_store_def store_data_def Let_def
      split: sum.splits option.splits)

lemma respectful_delay_slept:
  "respectful_delay cfg j s = (s', r) \<Longrightarrow>
     length (slept s') = length (slept s) + (if r = None then 1 else 0)"
  by (auto simp: respectful_delay_def Let_def split: if_splits)

lemma iteration_slept:
  assumes "iteration fromiso cfg env s = (s', r)"
  shows "length (slept s') = length (slept s) + (if r = None then 1 else 0)"
  using assms
  by (auto simp: iteration_def Let_def split_beta
      split: sum.splits option.splits if_splits dest!: respectful_delay_slept)

lemma iteration_total_le:
  assumes "iteration fromiso cfg env s = (s', r)"
  shows "total_requests s' \<le> total_requests s + 1"
  using assms
  by (auto simp: iteration_def Let_def split_beta
      split: sum.splits option.splits if_splits dest!: respectful_delay_total_eq)

text \<open>A world in which every connection attempt raises, and one in which every response is
  a JSON object whose \<^verbatim>\<open>items\<close> holds a string instead of an object.\<close>

definition failing_env :: "nat \<Rightarrow> cycle_env" where
  "failing_env i = demo_env OtherException"

definition string_items_env :: "nat \<Rightarrow> cycle_env" where
  "string_items_env i = demo_env (Response 200 (Some (JDict [(''items'', JList [JStr ''Knight''])])))"

text \<open>C6, as stated: the loop ends only when \<open>total_requests \<ge> max_requests\<close>. It fails in
  the first pass of a fresh agent with \<open>max_requests = 3\<close> when the response is
  \<^verbatim>\<open>{"items": ["Knight"]}\<close>: \<^verbatim>\<open>process_data\<close> raises \<^verbatim>\<open>AttributeError\<close>, \<^verbatim>\<open>collect_data\<close> has
  no handler, and the loop is left after one request.\<close>

theorem collect_data_leaves_by_exception:
  "collect_data demo_fromiso demo_config string_items_env 0 (init demo_config) =
     ((init demo_config)\<lparr>total_requests := 1, successful_requests := 1\<rparr>, Some AttributeError) \<and>
   \<not> collection_complete demo_config
       ((init demo_config)\<lparr>total_requests := 1, successful_requests := 1\<rparr>)"
proof -
  have i: "iteration demo_fromiso demo_config (string_items_env 0) (init demo_config) =
             ((init demo_config)\<lparr>total_requests := 1, successful_requests := 1\<rparr>,
              Some AttributeError)"
    by (simp add: iteration_def assess_data_quality_def get_success_rate_def
        make_api_request_def save_raw_data_def generate_comprehensive_metadata_def
        process_validate_store_def process_data_def dict_get_def
        string_items_env_def demo_env_def init_def Let_def)
  have c: "\<not> collection_complete demo_config (init demo_config)"
    by (simp add: collection_complete_def demo_config_def init_def)
  have "collect_data demo_fromiso demo_config string_items_env 0 (init demo_config) =
          ((init demo_config)\<lparr>total_requests := 1, successful_requests := 1\<rparr>,
           Some AttributeError)"
    by (subst collect_data.simps) (simp add: c i)
  moreover have "\<not> collection_complete demo_config
                     ((init demo_config)\<lparr>total_requests := 1, successful_requests := 1\<rparr>)"
    by (simp add: collection_complete_def demo_config_def)
  ultimately show ?thesis by simp
qed

text \<open>C6, amended: when \<^verbatim>\<open>collect_data\<close> returns, \<open>total_requests \<ge> max_requests\<close> holds, the
  counter stands at the larger of its start value and \<open>max_requests\<close>, and the loop has made
  exactly \<open>max_requests - total_requests\<close> passes (none if that is negative), each with one
  fetch cycle that added exactly one to \<open>total_requests\<close> and with one sleep at its end; from
  \<open>total_requests = 0\<close> these are exactly \<open>max_requests\<close> passes. The only other way out of
  the loop is an exception that \<^verbatim>\<open>make_api_request\<close> does not catch; then the loop has
  completed fewer passes than that and \<open>total_requests\<close> is at most \<open>max_requests\<close>.\<close>

theorem collect_data_passes:
  assumes "collect_data fromiso cfg env i s = (s', r)"
  shows "(r = None \<longrightarrow>
            collection_complete cfg s' \<and>
            total_requests s' = max (total_requests s) (max_requests (agent_settings cfg)) \<and>
            length (slept s') =
              length (slept s) + nat (max_requests (agent_settings cfg) - total_requests s)) \<and>
         (r \<noteq> None \<longrightarrow>
            total_requests s < max_requests (agent_settings cfg) \<and>
            total_requests s' \<le> max_requests (agent_settings cfg) \<and>
            length (slept s') <
              length (slept s) + nat (max_requests (agent_settings cfg) - total_requests s)) \<and>
         (\<forall>e a b. iteration fromiso cfg e a = (b, None) \<longrightarrow>
            total_requests b = total_requests a + 1 \<and> length (slept b) = length (slept a) + 1)"
proof -
  have passes: "\<forall>e a b. iteration fromiso cfg e a = (b, None) \<longrightarrow>
            total_requests b = total_requests a + 1 \<and> length (slept b) = length (slept a) + 1"
    using iteration_total iteration_slept by fastforce
  have run: "(r = None \<longrightarrow>
            collection_complete cfg s' \<and>
            total_requests s' = max (total_requests s) (max_requests (agent_settings cfg)) \<and>
            length (slept s') =
              length (slept s) + nat (max_requests (agent_settings cfg) - total_requests s)) \<and>
         (r \<noteq> None \<longrightarrow>
            total_requests s < max_requests (agent_settings cfg) \<and>
            total_requests s' \<le> max_requests (agent_settings cfg) \<and>
            length (slept s') <
              length (slept s) + nat (max_requests (agent_settings cfg) - total_requests s))"
    using assms
  proof (induction fromiso cfg env i s rule: collect_data.induct)
    case (1 fromiso cfg env i s)
    let ?m = "max_requests (agent_settings cfg)"
    show ?case
    proof (cases "collection_complete cfg s")
      case True
      with "1.prems" have "s' = s" "r = None"
        by (simp_all add: collect_data.simps [of fromiso cfg env i s])
      with True show ?thesis
        by (simp add: collection_complete_def)
    next
      case False
      then have lt: "total_requests s < ?m"
        by (simp add: collection_complete_def)
      obtain s1 r1 where it: "iteration fromiso cfg (env i) s = (s1, r1)"
        by (cases "iteration fromiso cfg (env i) s")
      show ?thesis
      proof (cases r1)
        case None
        have t1: "total_requests s1 = total_requests s + 1"
          using iteration_total it None by simp
        have l1: "length (slept s1) = length (slept s) + 1"
          using iteration_slept [OF it] None by simp
        have "collect_data fromiso cfg env (Suc i) s1 = (s', r)"
          using "1.prems" False it None
          by (simp add: collect_data.simps [of fromiso cfg env i s])
        from "1.IH" [OF False it [symmetric] None this]
        show ?thesis
          using t1 l1 lt by (auto simp: nat_diff_distrib')
      next
        case (Some e)
        with "1.prems" False it have "s' = s1" "r = Some e"
          by (simp_all add: collect_data.simps [of fromiso cfg env i s])
        moreover have "total_requests s1 \<le> total_requests s + 1"
          using iteration_total_le [OF it] .
        moreover have "length (slept s1) = length (slept s)"
          using iteration_slept [OF it] Some by simp
        ultimately show ?thesis
          using lt by auto
      qed
    qed
  qed
  from run passes show ?thesis by blast
qed

text \<open>Three passes in a world where every connection attempt fails: the loop returns after
  exactly three requests and three sleeps.\<close>

theorem collect_data_passes_witness:
  "snd (collect_data demo_fromiso demo_config failing_env 0 (init demo_config)) = None \<and>
   max_requests (agent_settings demo_config) = 3 \<and>
   total_requests (init demo_config) = 0 \<and>
   total_requests (fst (collect_data demo_fromiso demo_config failing_env 0 (init demo_config)))
     = 3 \<and>
   length (slept (fst (collect_data demo_fromiso demo_config failing_env 0 (init demo_config))))
     = 3"
proof -
  let ?run = "collect_data demo_fromiso demo_config failing_env 0 (init demo_config)"
  let ?s1 = "(init demo_config)\<lparr>total_requests := 1, failed_requests := 1, slept := [1]\<rparr>"
  let ?s2 = "(init demo_config)\<lparr>total_requests := 2, failed_requests := 2,
               delay_multiplier := 2, current_api := ''fallback'', slept := [1, 2]\<rparr>"
  let ?s3 = "(init demo_config)\<lparr>total_requests := 3, failed_requests := 3,
               delay_multiplier := 4, current_api := ''fallback'', slept := [1, 2, 4]\<rparr>"
  note defs = iteration_def assess_data_quality_def get_success_rate_def adjust_strategy_def
    try_fallback_api_def make_api_request_def request_failed_def respectful_delay_def
    failing_env_def demo_env_def demo_config_def init_def Let_def
  have i0: "iteration demo_fromiso demo_config (failing_env k) (init demo_config) = (?s1, None)"
    for k
    by (simp add: defs)
  have i1: "iteration demo_fromiso demo_config (failing_env k) ?s1 = (?s2, None)" for k
    by (simp add: defs)
  have i2: "iteration demo_fromiso demo_config (failing_env k) ?s2 = (?s3, None)" for k
    by (simp add: defs)
  have c: "\<not> collection_complete demo_config (init demo_config)"
    "\<not> collection_complete demo_config ?s1" "\<not> collection_complete demo_config ?s2"
    "collection_complete demo_config ?s3"
    by (simp_all add: collection_complete_def demo_config_def init_def)
  have "collect_data demo_fromiso demo_config failing_env (Suc (Suc (Suc 0))) ?s3 = (?s3, None)"
    by (subst collect_data.simps) (simp add: c)
  then have "collect_data demo_fromiso demo_config failing_env (Suc (Suc 0)) ?s2 = (?s3, None)"
    by (subst collect_data.simps) (simp add: c i2)
  then have "collect_data demo_fromiso demo_config failing_env (Suc 0) ?s1 = (?s3, None)"
    by (subst collect_data.simps) (simp add: c i1)
  then have r: "?run = (?s3, None)"
    by (subst collect_data.simps) (simp add: c i0)
  have m: "max_requests (agent_settings demo_config) = 3" "total_requests (init demo_config) = 0"
    "slept (init demo_config) = []"
    by (simp_all add: demo_config_def init_def)
  show ?thesis
    using collect_data_passes [OF r] m by (simp add: r)
qed

end
